theory Spec2Isabelle
  imports Main "HOL-Library.Sublist"
begin

section \<open>The ASG DNS handler (lambda/autoscale/autoscale.py)\<close>

text \<open>
  The handler reacts to Auto Scaling lifecycle notifications delivered through SNS. It talks
  to three services (autoscaling, ec2, route53) through boto3 clients and writes to a logger.
  In the model every function of the module is a program over the list of effects produced
  so far: log lines and mutating API calls are appended to it, read-only API calls are
  answered by the \<open>world\<close>, and every Python exception is an \<open>error\<close> value that stops the
  program.
\<close>

subsection \<open>Values, errors and effects\<close>

text \<open>Exceptions the module can end with. \<open>SystemExit\<close> is what \<open>sys.exit\<close> raises;
  \<open>ClientError\<close> stands for any exception raised inside a boto3 call.\<close>

datatype error =
    SystemExit int
  | KeyError string
  | IndexError
  | ValueError
  | UnboundLocalError string
  | JSONDecodeError
  | ClientError string

text \<open>Python values that are not known to be strings: the members of an API response list
  and the arguments of a log line.\<close>

datatype pyval =
    PStr string
  | PInt int
  | PList "pyval list"
  | PDict "(string \<times> pyval) list"

datatype level = INFO | ERROR

text \<open>
  What the module does to the outside, in the order it does it.
  \<^item> \<open>Log lvl fmt args\<close>: \<open>logger.info(fmt, *args)\<close> or \<open>logger.error(fmt, *args)\<close>.
  \<^item> \<open>CreateTags instance_id tag_name\<close>: \<open>ec2.create_tags\<close> with \<open>Resources = [instance_id]\<close>
    and the single tag \<open>Name = tag_name\<close>.
  \<^item> \<open>ChangeResourceRecordSets zone_id operation hostname ip\<close>:
    \<open>route53.change_resource_record_sets\<close> with one change of type \<open>A\<close>, TTL 3.
  \<^item> \<open>CompleteLifecycleAction hook asg instance_id token result\<close>:
    \<open>autoscaling.complete_lifecycle_action\<close>.
\<close>

datatype effect =
    Log level string "pyval list"
  | CreateTags string string
  | ChangeResourceRecordSets string string string string
  | CompleteLifecycleAction string string string string string

fun is_mutation :: "effect \<Rightarrow> bool" where
  "is_mutation (Log _ _ _) = False"
| "is_mutation (CreateTags _ _) = True"
| "is_mutation (ChangeResourceRecordSets _ _ _ _) = True"
| "is_mutation (CompleteLifecycleAction _ _ _ _ _) = True"

fun is_completion :: "effect \<Rightarrow> bool" where
  "is_completion (CompleteLifecycleAction _ _ _ _ _) = True"
| "is_completion _ = False"

definition mutations :: "effect list \<Rightarrow> effect list" where
  "mutations t = filter is_mutation t"

definition completions :: "effect list \<Rightarrow> effect list" where
  "completions t = filter is_completion t"

subsection \<open>Input and response shapes\<close>

text \<open>A decoded notification: a JSON object whose fields the handler reads as strings.\<close>

type_synonym message = "string \<rightharpoonup> string"

text \<open>The SNS envelope: \<open>event['Records']\<close>, \<open>record['Sns']['Message']\<close>.\<close>

record sns =
  Message :: string

record sns_record =
  Sns :: sns

record event =
  Records :: "sns_record list"

text \<open>\<open>ec2.describe_instances\<close>: \<open>['Reservations'][i]['Instances'][j]\<close>, each instance with
  optional address keys.\<close>

record ec2_instance =
  PublicIpAddress :: "string option"
  PrivateIpAddress :: "string option"

text \<open>\<open>autoscaling.describe_auto_scaling_groups\<close>: \<open>['AutoScalingGroups'][i]\<close>.\<close>

record asg =
  DesiredCapacity :: int
  Instances :: "pyval list"

text \<open>
  Everything outside the module. The services answer as a function of the mutating requests
  made so far and of the request, either with a response or with an exception.
  \<^item> \<open>describe_instances\<close> gives the reservations, each a list of instances;
  \<^item> \<open>list_resource_record_sets\<close> (zone, start name; type \<open>A\<close>, at most one item) gives the
    record sets, each the list of its record values;
  \<^item> \<open>describe_tags\<close> (group name; key \<open>asg:hostname_pattern\<close>, at most one record) gives the
    values of the matching tags;
  \<^item> \<open>json_loads\<close> and \<open>json_dumps\<close> are the functions of Python's \<open>json\<close> module.
\<close>

record world =
  environ :: "string \<rightharpoonup> string"
  json_loads :: "string \<Rightarrow> error + message"
  json_dumps :: "event \<Rightarrow> string"
  describe_instances :: "effect list \<Rightarrow> string \<Rightarrow> error + ec2_instance list list"
  list_resource_record_sets :: "effect list \<Rightarrow> string \<Rightarrow> string \<Rightarrow> error + string list list"
  describe_tags :: "effect list \<Rightarrow> string \<Rightarrow> error + string list"
  describe_auto_scaling_groups :: "effect list \<Rightarrow> string \<Rightarrow> error + asg list"
  create_tags :: "effect list \<Rightarrow> string \<Rightarrow> string \<Rightarrow> error + unit"
  change_resource_record_sets ::
    "effect list \<Rightarrow> string \<Rightarrow> string \<Rightarrow> string \<Rightarrow> string \<Rightarrow> error + unit"
  complete_lifecycle_action ::
    "effect list \<Rightarrow> string \<Rightarrow> string \<Rightarrow> string \<Rightarrow> string \<Rightarrow> string \<Rightarrow> error + pyval"

subsection \<open>Programs: effects so far in, result and effects out\<close>

type_synonym 'a prog = "effect list \<Rightarrow> (error + 'a) \<times> effect list"

definition ret :: "'a \<Rightarrow> 'a prog" where
  "ret x = (\<lambda>t. (Inr x, t))"

definition raise :: "error \<Rightarrow> 'a prog" where
  "raise e = (\<lambda>t. (Inl e, t))"

definition bind :: "'a prog \<Rightarrow> ('a \<Rightarrow> 'b prog) \<Rightarrow> 'b prog" where
  "bind m f = (\<lambda>t. case m t of (Inl e, t') \<Rightarrow> (Inl e, t') | (Inr x, t') \<Rightarrow> f x t')"

text \<open>A pure step that may raise.\<close>

definition lift :: "error + 'a \<Rightarrow> 'a prog" where
  "lift r = (\<lambda>t. (r, t))"

text \<open>A read-only API call: the service answers from the requests that changed it so far,
  nothing is recorded.\<close>

definition ask :: "(effect list \<Rightarrow> error + 'a) \<Rightarrow> 'a prog" where
  "ask f = (\<lambda>t. (f (mutations t), t))"

text \<open>A mutating API call: the request is recorded, then the service answers (with a
  response, or with an exception).\<close>

definition call :: "effect \<Rightarrow> (effect list \<Rightarrow> error + 'a) \<Rightarrow> 'a prog" where
  "call e f = (\<lambda>t. (f (mutations t), t @ [e]))"

definition logger_info :: "string \<Rightarrow> pyval list \<Rightarrow> unit prog" where
  "logger_info fmt args = (\<lambda>t. (Inr (), t @ [Log INFO fmt args]))"

definition logger_error :: "string \<Rightarrow> pyval list \<Rightarrow> unit prog" where
  "logger_error fmt args = (\<lambda>t. (Inr (), t @ [Log ERROR fmt args]))"

subsection \<open>Python built-ins used by the module\<close>

text \<open>\<open>xs[0]\<close>.\<close>

definition item0 :: "'a list \<Rightarrow> error + 'a" where
  "item0 xs = (case xs of [] \<Rightarrow> Inl IndexError | x # _ \<Rightarrow> Inr x)"

text \<open>\<open>d[k]\<close> on a dictionary.\<close>

definition getitem :: "(string \<rightharpoonup> 'v) \<Rightarrow> string \<Rightarrow> error + 'v" where
  "getitem d k = (case d k of None \<Rightarrow> Inl (KeyError k) | Some v \<Rightarrow> Inr v)"

text \<open>\<open>sub in s\<close> on strings is \<^const>\<open>sublist\<close>: \<open>s\<close> has \<open>sub\<close> as a contiguous part.\<close>

text \<open>\<open>s.replace(old, new)\<close>: every occurrence of \<open>old\<close>, found from the left without
  overlap, is replaced; with an empty \<open>old\<close>, \<open>new\<close> is put around every character.\<close>

function py_replace :: "string \<Rightarrow> string \<Rightarrow> string \<Rightarrow> string" where
  "py_replace old new [] = (if old = [] then new else [])"
| "py_replace old new (c # cs) =
     (if old = [] then new @ c # py_replace old new cs
      else if prefix old (c # cs) then new @ py_replace old new (drop (length old) (c # cs))
      else c # py_replace old new cs)"
  by pat_completeness auto
termination
  by (relation "measure (\<lambda>(old, new, s). length s)") auto

text \<open>\<open>s.split(sep)\<close> for a separator of one character.\<close>

fun py_split :: "char \<Rightarrow> string \<Rightarrow> string list" where
  "py_split sep [] = [[]]"
| "py_split sep (c # cs) =
     (if c = sep then [] # py_split sep cs
      else (case py_split sep cs of [] \<Rightarrow> [[c]] | p # ps \<Rightarrow> (c # p) # ps))"

text \<open>\<open>str(n)\<close> for an integer: decimal digits, a minus sign when negative.\<close>

definition digit :: "nat \<Rightarrow> char" where
  "digit d = ''0123456789'' ! (d mod 10)"

function str_nat :: "nat \<Rightarrow> string" where
  "str_nat n = (if n < 10 then [digit n] else str_nat (n div 10) @ [digit (n mod 10)])"
  by pat_completeness auto
termination
  by (relation "measure id") auto

definition str_int :: "int \<Rightarrow> string" where
  "str_int i = (if i < 0 then CHR ''-'' # str_nat (nat (- i)) else str_nat (nat i))"

text \<open>\<open>xs.index(x)\<close>: the position of the first member equal to \<open>x\<close>.\<close>

fun index_of :: "'a list \<Rightarrow> 'a \<Rightarrow> nat option" where
  "index_of [] x = None"
| "index_of (y # ys) x = (if y = x then Some 0 else map_option Suc (index_of ys x))"

definition py_index :: "'a list \<Rightarrow> 'a \<Rightarrow> error + nat" where
  "py_index xs x = (case index_of xs x of None \<Rightarrow> Inl ValueError | Some i \<Rightarrow> Inr i)"

text \<open>\<open>a, b = xs\<close>.\<close>

definition unpack2 :: "'a list \<Rightarrow> error + 'a \<times> 'a" where
  "unpack2 xs = (case xs of [a, b] \<Rightarrow> Inr (a, b) | _ \<Rightarrow> Inl ValueError)"

text \<open>\<open>d[k]\<close> on an API response whose key \<open>k\<close> is optional.\<close>

definition field :: "string \<Rightarrow> 'a option \<Rightarrow> error + 'a" where
  "field k v = (case v of None \<Rightarrow> Inl (KeyError k) | Some x \<Rightarrow> Inr x)"

text \<open>Reading a local variable that is assigned on some paths only.\<close>

definition local_var :: "string \<Rightarrow> 'a option \<Rightarrow> error + 'a" where
  "local_var name v = (case v of None \<Rightarrow> Inl (UnboundLocalError name) | Some x \<Rightarrow> Inr x)"

subsection \<open>The module\<close>

definition HOSTNAME_TAG_NAME :: string where
  "HOSTNAME_TAG_NAME = ''asg:hostname_pattern''"

definition LIFECYCLE_KEY :: string where
  "LIFECYCLE_KEY = ''LifecycleHookName''"

definition ASG_KEY :: string where
  "ASG_KEY = ''AutoScalingGroupName''"

text \<open>\<open>fetch_ip_from_ec2\<close>: the address of an instance, public when the environment variable
  \<open>use_public_ip\<close> is \<open>"true"\<close>, private otherwise.\<close>

definition fetch_ip_from_ec2 :: "world \<Rightarrow> string \<Rightarrow> string prog" where
  "fetch_ip_from_ec2 w instance_id =
     bind (logger_info ''Fetching IP for instance-id: %s'' [PStr instance_id]) (\<lambda>_.
     bind (ask (\<lambda>t. describe_instances w t instance_id)) (\<lambda>reservations.
     if environ w ''use_public_ip'' \<noteq> None \<and> environ w ''use_public_ip'' = Some ''true'' then
       bind (lift (item0 reservations)) (\<lambda>instances.
       bind (lift (item0 instances)) (\<lambda>instance.
       bind (lift (field ''PublicIpAddress'' (PublicIpAddress instance))) (\<lambda>ip_address.
       bind (logger_info ''Found public IP for instance-id %s: %s''
               [PStr instance_id, PStr ip_address]) (\<lambda>_.
       ret ip_address))))
     else
       bind (lift (item0 reservations)) (\<lambda>instances.
       bind (lift (item0 instances)) (\<lambda>instance.
       bind (lift (field ''PrivateIpAddress'' (PrivateIpAddress instance))) (\<lambda>ip_address.
       bind (logger_info ''Found private IP for instance-id %s: %s''
               [PStr instance_id, PStr ip_address]) (\<lambda>_.
       ret ip_address))))))"

text \<open>\<open>fetch_ip_from_route53\<close>: the first value of the first record set listed from
  \<open>hostname\<close> on.\<close>

definition fetch_ip_from_route53 :: "world \<Rightarrow> string \<Rightarrow> string \<Rightarrow> string prog" where
  "fetch_ip_from_route53 w hostname zone_id =
     bind (logger_info ''Fetching IP for hostname: %s'' [PStr hostname]) (\<lambda>_.
     bind (ask (\<lambda>t. list_resource_record_sets w t zone_id hostname)) (\<lambda>record_sets.
     bind (lift (item0 record_sets)) (\<lambda>resource_records.
     bind (lift (item0 resource_records)) (\<lambda>ip_address.
     bind (logger_info ''Found IP for hostname %s: %s'' [PStr hostname, PStr ip_address]) (\<lambda>_.
     ret ip_address)))))"

text \<open>\<open>fetch_tag_metadata\<close>: the value of the group's hostname tag, split at \<open>@\<close>.\<close>

definition fetch_tag_metadata :: "world \<Rightarrow> string \<Rightarrow> string list prog" where
  "fetch_tag_metadata w asg_name =
     bind (logger_info ''Fetching tags for ASG: %s'' [PStr asg_name]) (\<lambda>_.
     bind (ask (\<lambda>t. describe_tags w t asg_name)) (\<lambda>tags.
     bind (lift (item0 tags)) (\<lambda>tag_value.
     bind (logger_info ''Found tags for ASG %s: %s'' [PStr asg_name, PStr tag_value]) (\<lambda>_.
     ret (py_split CHR ''@'' tag_value)))))"

definition possible_tags :: "string list" where
  "possible_tags = [''instanceid'', ''instance-count'', ''instance-index'']"

text \<open>\<open>build_hostname\<close>: expands the pattern. \<open>sys.exit(1)\<close> raises \<open>SystemExit(1)\<close>, which
  nothing in the module catches.\<close>

definition build_hostname :: "world \<Rightarrow> string \<Rightarrow> string \<Rightarrow> string \<Rightarrow> string prog" where
  "build_hostname w hostname_pattern instance_id asg_name =
     bind (if \<not> list_ex (\<lambda>tag. sublist tag hostname_pattern) possible_tags then
             bind (logger_error ''Hostname pattern must contain one of the following tags: %s''
                     [PList (map PStr possible_tags)]) (\<lambda>_.
             raise (SystemExit 1))
           else ret ()) (\<lambda>_.
     if sublist ''instance-count'' hostname_pattern then
       bind (ask (\<lambda>t. describe_auto_scaling_groups w t asg_name)) (\<lambda>groups.
       bind (lift (item0 groups)) (\<lambda>group.
       ret (py_replace ''#instance-count'' (str_int (DesiredCapacity group)) hostname_pattern)))
     else if sublist ''instance-index'' hostname_pattern then
       bind (ask (\<lambda>t. describe_auto_scaling_groups w t asg_name)) (\<lambda>groups.
       bind (lift (item0 groups)) (\<lambda>group.
       bind (lift (py_index (Instances group) (PStr instance_id))) (\<lambda>instance_index.
       ret (py_replace ''#instance-index'' (str_nat instance_index) hostname_pattern))))
     else
       ret (py_replace ''#instanceid'' instance_id hostname_pattern))"

text \<open>\<open>update_name_tag\<close>: the instance's \<open>Name\<close> tag becomes the hostname's first label.\<close>

definition update_name_tag :: "world \<Rightarrow> string \<Rightarrow> string \<Rightarrow> unit prog" where
  "update_name_tag w instance_id hostname =
     bind (lift (item0 (py_split CHR ''.'' hostname))) (\<lambda>tag_name.
     bind (logger_info ''Updating name tag for instance-id %s with: %s''
             [PStr instance_id, PStr tag_name]) (\<lambda>_.
     call (CreateTags instance_id tag_name) (\<lambda>t. create_tags w t instance_id tag_name)))"

text \<open>\<open>update_record\<close>: one change to the zone.\<close>

definition update_record :: "world \<Rightarrow> string \<Rightarrow> string \<Rightarrow> string \<Rightarrow> string \<Rightarrow> unit prog" where
  "update_record w zone_id ip hostname operation =
     bind (logger_info ''Changing record with %s for %s -> %s in %s''
             [PStr operation, PStr hostname, PStr ip, PStr zone_id]) (\<lambda>_.
     call (ChangeResourceRecordSets zone_id operation hostname ip)
          (\<lambda>t. change_resource_record_sets w t zone_id operation hostname ip))"

text \<open>\<open>process_message\<close>. The local variable \<open>operation\<close> is assigned in the first two branches
  only, so it is an option here and reading it unset raises.\<close>

definition process_message :: "world \<Rightarrow> message \<Rightarrow> unit prog" where
  "process_message w message =
     (if message ''LifecycleTransition'' = None then
        bind (lift (getitem message ''Event'')) (\<lambda>ev.
        logger_info ''Processing %s event'' [PStr ev])
      else
        bind (lift (getitem message ''LifecycleTransition'')) (\<lambda>transition.
        bind (logger_info ''Processing %s event'' [PStr transition]) (\<lambda>_.
        bind (if transition = ''autoscaling:EC2_INSTANCE_LAUNCHING'' then
                ret (Some ''UPSERT'')
              else if transition = ''autoscaling:EC2_INSTANCE_TERMINATING''
                      \<or> transition = ''autoscaling:EC2_INSTANCE_LAUNCH_ERROR'' then
                ret (Some ''DELETE'')
              else
                bind (logger_error ''Encountered unknown event type: %s'' [PStr transition]) (\<lambda>_.
                ret None)) (\<lambda>operation.
        bind (lift (getitem message ''AutoScalingGroupName'')) (\<lambda>asg_name.
        bind (lift (getitem message ''EC2InstanceId'')) (\<lambda>instance_id.
        bind (fetch_tag_metadata w asg_name) (\<lambda>parts.
        bind (lift (unpack2 parts)) (\<lambda>(hostname_pattern, zone_id).
        bind (build_hostname w hostname_pattern instance_id asg_name) (\<lambda>hostname.
        bind (lift (local_var ''operation'' operation)) (\<lambda>op.
        bind (if op = ''UPSERT'' then
                bind (fetch_ip_from_ec2 w instance_id) (\<lambda>ip.
                bind (update_name_tag w instance_id hostname) (\<lambda>_.
                ret ip))
              else
                fetch_ip_from_route53 w hostname zone_id) (\<lambda>ip.
        bind (lift (local_var ''operation'' operation)) (\<lambda>op.
        update_record w zone_id ip hostname op))))))))))))"

text \<open>\<open>process_record\<close>: decodes the notification inside an SNS record.\<close>

definition process_record :: "world \<Rightarrow> sns_record \<Rightarrow> unit prog" where
  "process_record w record =
     bind (lift (json_loads w (Message (Sns record)))) (\<lambda>message.
     process_message w message)"

text \<open>The loop \<open>for record in event['Records']: process_record(record)\<close>.\<close>

fun process_records :: "world \<Rightarrow> sns_record list \<Rightarrow> unit prog" where
  "process_records w [] = ret ()"
| "process_records w (record # records) =
     bind (process_record w record) (\<lambda>_. process_records w records)"

text \<open>The loop variable \<open>record\<close> after the loop: the last record, unset when the loop body
  never ran.\<close>

definition loop_var :: "'a list \<Rightarrow> 'a option" where
  "loop_var xs = (if xs = [] then None else Some (last xs))"

text \<open>\<open>lambda_handler\<close> (its second parameter, the Lambda context, is never read).\<close>

definition lambda_handler :: "world \<Rightarrow> event \<Rightarrow> unit prog" where
  "lambda_handler w event =
     bind (logger_info (''Processing SNS event: '' @ json_dumps w event) []) (\<lambda>_.
     bind (process_records w (Records event)) (\<lambda>_.
     bind (logger_info ''Finishing ASG action'' []) (\<lambda>_.
     bind (lift (local_var ''record'' (loop_var (Records event)))) (\<lambda>record.
     bind (lift (json_loads w (Message (Sns record)))) (\<lambda>message.
     if message LIFECYCLE_KEY \<noteq> None \<and> message ASG_KEY \<noteq> None then
       bind (lift (getitem message ''LifecycleHookName'')) (\<lambda>hook.
       bind (lift (getitem message ''AutoScalingGroupName'')) (\<lambda>asg_name.
       bind (lift (getitem message ''EC2InstanceId'')) (\<lambda>instance_id.
       bind (lift (getitem message ''LifecycleActionToken'')) (\<lambda>token.
       bind (call (CompleteLifecycleAction hook asg_name instance_id token ''CONTINUE'')
               (\<lambda>t. complete_lifecycle_action w t hook asg_name instance_id token ''CONTINUE''))
            (\<lambda>response.
       logger_info ''ASG action complete: %s'' [response])))))
     else
       logger_error ''No valid JSON message'' [])))))"

subsection \<open>Reading the effects\<close>

text \<open>The operations of the DNS changes requested, in order.\<close>

fun dns_operations :: "effect list \<Rightarrow> string list" where
  "dns_operations [] = []"
| "dns_operations (ChangeResourceRecordSets zone_id operation hostname ip # t) =
     operation # dns_operations t"
| "dns_operations (e # t) = dns_operations t"

text \<open>A program preserves a reading \<open>f\<close> of the effects when running it never changes what
  \<open>f\<close> sees; a reading ignores an effect when appending that effect does not change it.\<close>

definition preserves :: "(effect list \<Rightarrow> 'b) \<Rightarrow> 'a prog \<Rightarrow> bool" where
  "preserves f m = (\<forall>t. f (snd (m t)) = f t)"

definition ignores :: "(effect list \<Rightarrow> 'b) \<Rightarrow> effect \<Rightarrow> bool" where
  "ignores f e = (\<forall>t. f (t @ [e]) = f t)"

definition log_blind :: "(effect list \<Rightarrow> 'b) \<Rightarrow> bool" where
  "log_blind f = (\<forall>lvl fmt args. ignores f (Log lvl fmt args))"

text \<open>A program ends with \<open>a\<close> under the reading \<open>f\<close> when it either extends the reading by
  exactly \<open>a\<close>, or leaves it as it was and raises.\<close>

definition ends :: "(effect list \<Rightarrow> 'b list) \<Rightarrow> 'b \<Rightarrow> 'a prog \<Rightarrow> bool" where
  "ends f a m = (\<forall>t. f (snd (m t)) = f t @ [a]
                    \<or> (f (snd (m t)) = f t \<and> (\<exists>e. fst (m t) = Inl e)))"

text \<open>The number a string of decimal digits denotes, to state what \<open>str_nat\<close> prints.\<close>

definition digit_value :: "char \<Rightarrow> nat" where
  "digit_value c = of_char c - 48"

definition decimal_value :: "string \<Rightarrow> nat" where
  "decimal_value s = foldl (\<lambda>a c. 10 * a + digit_value c) 0 s"

subsection \<open>A concrete deployment\<close>

text \<open>
  One group \<open>asg1\<close> of desired capacity 3 with the members \<open>i-0\<close> and \<open>i-1\<close>, each listed
  as the service lists a member, a dictionary with its \<open>InstanceId\<close>; the group is tagged
  \<open>web-#instanceid.example.com@ZONE1\<close>. The notifications are named by their payloads, and
  the variants change one answer of the world each.
\<close>

definition launch_message :: message where
  "launch_message =
     [''LifecycleHookName'' \<mapsto> ''hook1'',
      ''LifecycleTransition'' \<mapsto> ''autoscaling:EC2_INSTANCE_LAUNCHING'',
      ''AutoScalingGroupName'' \<mapsto> ''asg1'',
      ''EC2InstanceId'' \<mapsto> ''i-1'',
      ''LifecycleActionToken'' \<mapsto> ''token1'']"

definition terminate_message :: message where
  "terminate_message =
     launch_message(''LifecycleTransition'' \<mapsto> ''autoscaling:EC2_INSTANCE_TERMINATING'')"

definition launch_error_message :: message where
  "launch_error_message =
     launch_message(''LifecycleTransition'' \<mapsto> ''autoscaling:EC2_INSTANCE_LAUNCH_ERROR'')"

definition reboot_message :: message where
  "reboot_message =
     launch_message(''LifecycleTransition'' \<mapsto> ''autoscaling:EC2_INSTANCE_REBOOTING'')"

definition tokenless_message :: message where
  "tokenless_message = launch_message(''LifecycleActionToken'' := None)"

definition test_message :: message where
  "test_message =
     [''Event'' \<mapsto> ''autoscaling:TEST_NOTIFICATION'',
      ''AutoScalingGroupName'' \<mapsto> ''asg1'']"

definition example_loads :: "string \<Rightarrow> error + message" where
  "example_loads payload =
     (if payload = ''launch'' then Inr launch_message
      else if payload = ''terminate'' then Inr terminate_message
      else if payload = ''tokenless'' then Inr tokenless_message
      else if payload = ''test'' then Inr test_message
      else Inl JSONDecodeError)"

definition example_world :: world where
  "example_world = \<lparr>
     environ = Map.empty,
     json_loads = example_loads,
     json_dumps = (\<lambda>_. ''{}''),
     describe_instances = (\<lambda>_ _.
       Inr [[\<lparr>PublicIpAddress = Some ''54.1.2.3'', PrivateIpAddress = Some ''10.0.0.5''\<rparr>]]),
     list_resource_record_sets = (\<lambda>_ _ _. Inr [[''10.0.0.5'']]),
     describe_tags = (\<lambda>_ _. Inr [''web-#instanceid.example.com@ZONE1'']),
     describe_auto_scaling_groups = (\<lambda>_ _.
       Inr [\<lparr>DesiredCapacity = 3,
            Instances = [PDict [(''InstanceId'', PStr ''i-0'')], PDict [(''InstanceId'', PStr ''i-1'')]]\<rparr>]),
     create_tags = (\<lambda>_ _ _. Inr ()),
     change_resource_record_sets = (\<lambda>_ _ _ _ _. Inr ()),
     complete_lifecycle_action = (\<lambda>_ _ _ _ _ _. Inr (PDict []))\<rparr>"

definition public_world :: world where
  "public_world = example_world\<lparr>environ := [''use_public_ip'' \<mapsto> ''true'']\<rparr>"

definition untagged_world :: world where
  "untagged_world = example_world\<lparr>describe_tags := (\<lambda>_ _. Inr [])\<rparr>"

definition patternless_world :: world where
  "patternless_world =
     example_world\<lparr>describe_tags := (\<lambda>_ _. Inr [''web.example.com@ZONE1''])\<rparr>"

definition batch :: "string list \<Rightarrow> event" where
  "batch payloads = \<lparr>Records = map (\<lambda>p. \<lparr>Sns = \<lparr>Message = p\<rparr>\<rparr>) payloads\<rparr>"

section \<open>Running programs\<close>

named_theorems run

lemma mutations_Nil [simp]: "mutations [] = []"
  by (simp add: mutations_def)

lemma mutations_append [simp]: "mutations (a @ b) = mutations a @ mutations b"
  by (simp add: mutations_def)

lemma mutations_Cons [simp]:
  "mutations (e # t) = (if is_mutation e then e # mutations t else mutations t)"
  by (simp add: mutations_def)

lemma completions_Nil [simp]: "completions [] = []"
  by (simp add: completions_def)

lemma completions_append [simp]: "completions (a @ b) = completions a @ completions b"
  by (simp add: completions_def)

lemma completions_Cons [simp]:
  "completions (e # t) = (if is_completion e then e # completions t else completions t)"
  by (simp add: completions_def)

lemma dns_operations_append [simp]:
  "dns_operations (a @ b) = dns_operations a @ dns_operations b"
  by (induction a rule: dns_operations.induct) auto

lemma run_ret [run]: "ret x t = (Inr x, t)"
  by (simp add: ret_def)

lemma run_raise [run]: "raise e t = (Inl e, t)"
  by (simp add: raise_def)

lemma run_lift [run]: "lift r t = (r, t)"
  by (simp add: lift_def)

lemma run_ask [run]: "ask f t = (f (mutations t), t)"
  by (simp add: ask_def)

lemma run_call [run]: "call e f t = (f (mutations t), t @ [e])"
  by (simp add: call_def)

lemma run_logger_info [run]: "logger_info fmt args t = (Inr (), t @ [Log INFO fmt args])"
  by (simp add: logger_info_def)

lemma run_logger_error [run]: "logger_error fmt args t = (Inr (), t @ [Log ERROR fmt args])"
  by (simp add: logger_error_def)

lemma run_bind [run]:
  "bind m f t = (case m t of (Inl e, t') \<Rightarrow> (Inl e, t') | (Inr x, t') \<Rightarrow> f x t')"
  by (simp add: bind_def)

lemma bind_ret [simp]: "bind (ret x) g = g x"
  by (rule ext) (simp add: bind_def ret_def)

lemma bind_lift_Inr [simp]: "bind (lift (Inr x)) g = g x"
  by (rule ext) (simp add: bind_def lift_def)

section \<open>The built-ins\<close>

lemma index_of_None: "index_of xs x = None \<longleftrightarrow> x \<notin> set xs"
  by (induction xs) auto

lemma index_of_Some:
  "index_of xs x = Some i \<longleftrightarrow> i < length xs \<and> xs ! i = x \<and> (\<forall>j<i. xs ! j \<noteq> x)"
proof (induction xs arbitrary: i)
  case Nil
  then show ?case by simp
next
  case (Cons y ys)
  show ?case
  proof (cases "y = x")
    case True
    then show ?thesis by (cases i) auto
  next
    case False
    show ?thesis
    proof (cases i)
      case 0
      with False show ?thesis by auto
    next
      case (Suc k)
      have "(\<forall>j<Suc k. (y # ys) ! j \<noteq> x) \<longleftrightarrow> (\<forall>j<k. ys ! j \<noteq> x)"
        using False by (auto simp: less_Suc_eq_0_disj)
      with False Suc Cons.IH [of k] show ?thesis by auto
    qed
  qed
qed

lemma not_sublist_py_replace: "\<not> sublist old s \<Longrightarrow> py_replace old new s = s"
proof (induction old new s rule: py_replace.induct)
  case (1 old new)
  then show ?case by auto
next
  case (2 old new c cs)
  then show ?case
    by (auto simp: sublist_Cons_right)
qed

lemma py_replace_at:
  assumes "old = h # rest" and "h \<notin> set pre"
  shows "py_replace old new (pre @ old @ post) = pre @ new @ py_replace old new post"
  using assms
proof (induction pre)
  case Nil
  then show ?case by simp
next
  case (Cons c pre)
  then have "\<not> prefix old (c # pre @ old @ post)" by auto
  with Cons show ?case by simp
qed

lemma py_split_not_Nil: "py_split sep s \<noteq> []"
  by (induction s) (auto split: list.splits)

lemma digit_value_digit: "d < 10 \<Longrightarrow> digit_value (digit d) = d"
proof -
  assume "d < 10"
  then have "d \<in> {0, 1, 2, 3, 4, 5, 6, 7, 8, 9}" by auto
  then show ?thesis
    by (auto simp: digit_value_def digit_def)
qed

lemma decimal_value_str_nat: "decimal_value (str_nat n) = n"
proof (induction n rule: str_nat.induct)
  case (1 n)
  show ?case
  proof (cases "n < 10")
    case True
    then show ?thesis
      by (simp add: decimal_value_def digit_value_digit)
  next
    case False
    then have "decimal_value (str_nat (n div 10)) = n div 10"
      using "1" by simp
    moreover have "str_nat n = str_nat (n div 10) @ [digit (n mod 10)]"
      using False by (subst str_nat.simps) simp
    ultimately show ?thesis
      by (simp add: decimal_value_def digit_value_digit)
  qed
qed

section \<open>Programs that preserve a reading of the effects\<close>

lemma log_blind_mutations [simp]: "log_blind mutations"
  by (simp add: log_blind_def ignores_def)

lemma log_blind_completions [simp]: "log_blind completions"
  by (simp add: log_blind_def ignores_def)

lemma log_blind_dns_operations [simp]: "log_blind dns_operations"
  by (simp add: log_blind_def ignores_def)

lemma ignores_dns_CreateTags [simp]: "ignores dns_operations (CreateTags i n)"
  by (simp add: ignores_def)

lemma preserves_Pair [intro!, simp]: "preserves f (Pair r)"
  by (simp add: preserves_def)

lemma preserves_ret [intro!, simp]: "preserves f (ret x)"
  by (simp add: preserves_def run)

lemma preserves_raise [intro!, simp]: "preserves f (raise e)"
  by (simp add: preserves_def run)

lemma preserves_lift [intro!, simp]: "preserves f (lift r)"
  by (simp add: preserves_def run)

lemma preserves_ask [intro!, simp]: "preserves f (ask g)"
  by (simp add: preserves_def run)

lemma preserves_logger_info [intro]: "log_blind f \<Longrightarrow> preserves f (logger_info fmt args)"
  by (simp add: preserves_def log_blind_def ignores_def run)

lemma preserves_logger_error [intro]: "log_blind f \<Longrightarrow> preserves f (logger_error fmt args)"
  by (simp add: preserves_def log_blind_def ignores_def run)

lemma preserves_call [intro]: "ignores f e \<Longrightarrow> preserves f (call e g)"
  by (simp add: preserves_def ignores_def run)

lemma preserves_bind [intro!]:
  assumes "preserves f m" and "\<And>x. preserves f (g x)"
  shows "preserves f (bind m g)"
  unfolding preserves_def
proof
  fix t
  show "f (snd (bind m g t)) = f t"
  proof (cases "m t")
    case (Pair r t')
    then have t': "f t' = f t"
      using assms(1) by (auto simp: preserves_def dest: spec [of _ t])
    show ?thesis
    proof (cases r)
      case (Inl e)
      with Pair t' show ?thesis by (simp add: bind_def)
    next
      case (Inr x)
      with Pair have "bind m g t = g x t'" by (simp add: bind_def)
      moreover have "f (snd (g x t')) = f t'"
        using assms(2) [of x] by (simp add: preserves_def)
      ultimately show ?thesis using t' by simp
    qed
  qed
qed

lemma preserves_if [intro!]:
  "(c \<Longrightarrow> preserves f m) \<Longrightarrow> (\<not> c \<Longrightarrow> preserves f n) \<Longrightarrow> preserves f (if c then m else n)"
  by simp

lemma preserves_case_prod [intro!]:
  "(\<And>a b. preserves f (g a b)) \<Longrightarrow> preserves f (case p of (a, b) \<Rightarrow> g a b)"
  by (cases p) simp

lemma preserves_fetch_tag_metadata [intro]:
  "log_blind f \<Longrightarrow> preserves f (fetch_tag_metadata w asg_name)"
  unfolding fetch_tag_metadata_def by (intro preserves_bind preserves_logger_info) auto

lemma preserves_build_hostname [intro]:
  "log_blind f \<Longrightarrow> preserves f (build_hostname w hostname_pattern instance_id asg_name)"
  unfolding build_hostname_def by auto

lemma preserves_fetch_ip_from_ec2 [intro]:
  "log_blind f \<Longrightarrow> preserves f (fetch_ip_from_ec2 w instance_id)"
  unfolding fetch_ip_from_ec2_def by auto

lemma preserves_fetch_ip_from_route53 [intro]:
  "log_blind f \<Longrightarrow> preserves f (fetch_ip_from_route53 w hostname zone_id)"
  unfolding fetch_ip_from_route53_def by auto

lemma preserves_update_name_tag [intro]:
  "log_blind f \<Longrightarrow> (\<And>i n. ignores f (CreateTags i n)) \<Longrightarrow>
   preserves f (update_name_tag w instance_id hostname)"
  unfolding update_name_tag_def by auto

lemma preserves_update_record [intro]:
  "log_blind f \<Longrightarrow> (\<And>z a h i. ignores f (ChangeResourceRecordSets z a h i)) \<Longrightarrow>
   preserves f (update_record w zone_id ip hostname operation)"
  unfolding update_record_def by auto

lemma preserves_process_message:
  assumes "log_blind f" and "\<And>i n. ignores f (CreateTags i n)"
    and "\<And>z a h i. ignores f (ChangeResourceRecordSets z a h i)"
  shows "preserves f (process_message w message)"
  unfolding process_message_def using assms by auto

lemma preserves_process_records:
  assumes "log_blind f" and "\<And>i n. ignores f (CreateTags i n)"
    and "\<And>z a h i. ignores f (ChangeResourceRecordSets z a h i)"
  shows "preserves f (process_records w records)"
proof (induction records)
  case Nil
  show ?case by simp
next
  case (Cons r rs)
  have "\<And>message. preserves f (process_message w message)"
    using assms by (rule preserves_process_message)
  with Cons show ?case by (auto simp: process_record_def)
qed

lemma process_records_completions:
  "completions (snd (process_records w records t)) = completions t"
proof -
  have "preserves completions (process_records w records)"
    by (rule preserves_process_records) (simp_all add: ignores_def)
  then show ?thesis by (simp add: preserves_def)
qed

lemma ends_bind:
  assumes "preserves f m" and "\<And>x. ends f a (g x)"
  shows "ends f a (bind m g)"
  unfolding ends_def
proof
  fix t
  show "f (snd (bind m g t)) = f t @ [a]
          \<or> (f (snd (bind m g t)) = f t \<and> (\<exists>e. fst (bind m g t) = Inl e))"
  proof (cases "m t")
    case (Pair r t')
    then have t': "f t' = f t"
      using assms(1) by (auto simp: preserves_def dest: spec [of _ t])
    show ?thesis
    proof (cases r)
      case (Inl e)
      with Pair t' show ?thesis by (simp add: bind_def)
    next
      case (Inr x)
      with Pair have "bind m g t = g x t'" by (simp add: bind_def)
      moreover have "f (snd (g x t')) = f t' @ [a]
          \<or> (f (snd (g x t')) = f t' \<and> (\<exists>e. fst (g x t') = Inl e))"
        using assms(2) [of x] by (simp add: ends_def)
      ultimately show ?thesis using t' by simp
    qed
  qed
qed

lemma ends_call: "(\<And>t. f (t @ [e]) = f t @ [a]) \<Longrightarrow> ends f a (call e g)"
  by (simp add: ends_def run)

lemma ends_case_prod:
  "(\<And>x y. ends f a (g x y)) \<Longrightarrow> ends f a (case p of (x, y) \<Rightarrow> g x y)"
  by (cases p) simp

lemma ends_update_record:
  "ends dns_operations operation (update_record w zone_id ip hostname operation)"
  unfolding update_record_def
  by (intro ends_bind ends_call preserves_logger_info) simp_all

lemma ends_process_message_launching:
  assumes "message ''LifecycleTransition'' = Some ''autoscaling:EC2_INSTANCE_LAUNCHING''"
  shows "ends dns_operations ''UPSERT'' (process_message w message)"
  unfolding process_message_def using assms
  by (simp add: getitem_def local_var_def)
     (intro ends_bind ends_case_prod ends_update_record preserves_bind preserves_logger_info
        preserves_lift preserves_fetch_tag_metadata preserves_build_hostname preserves_Pair
        preserves_fetch_ip_from_ec2 preserves_update_name_tag; simp)

lemma ends_process_message_terminating:
  assumes "message ''LifecycleTransition'' = Some transition"
    and "transition = ''autoscaling:EC2_INSTANCE_TERMINATING''
         \<or> transition = ''autoscaling:EC2_INSTANCE_LAUNCH_ERROR''"
  shows "ends dns_operations ''DELETE'' (process_message w message)"
  unfolding process_message_def using assms
  by (auto simp: getitem_def local_var_def
      intro!: ends_bind ends_case_prod ends_update_record preserves_bind preserves_logger_info
        preserves_lift preserves_fetch_tag_metadata preserves_build_hostname preserves_Pair
        preserves_fetch_ip_from_route53)

section \<open>Single steps of the module\<close>

lemmas prog_defs = process_message_def fetch_tag_metadata_def build_hostname_def
  fetch_ip_from_ec2_def fetch_ip_from_route53_def update_name_tag_def update_record_def
  run item0_def getitem_def unpack2_def local_var_def py_index_def field_def

lemma has_token:
  "sublist ''instance-count'' p \<or> sublist ''instance-index'' p \<Longrightarrow>
   list_ex (\<lambda>tag. sublist tag p) possible_tags"
  by (auto simp: possible_tags_def)

lemma no_token:
  "\<not> sublist ''instanceid'' p \<Longrightarrow> \<not> sublist ''instance-count'' p \<Longrightarrow>
   \<not> sublist ''instance-index'' p \<Longrightarrow> \<not> list_ex (\<lambda>tag. sublist tag p) possible_tags"
  by (simp add: possible_tags_def)

lemma build_hostname_no_token:
  assumes "\<not> sublist ''instanceid'' p" and "\<not> sublist ''instance-count'' p"
    and "\<not> sublist ''instance-index'' p"
  shows "build_hostname w p instance_id asg_name t =
    (Inl (SystemExit 1), t @ [Log ERROR ''Hostname pattern must contain one of the following tags: %s''
                     [PList (map PStr possible_tags)]])"
  using no_token [OF assms] by (simp add: build_hostname_def run)

lemma build_hostname_index_run:
  assumes "sublist ''instance-index'' hostname_pattern"
    and "\<not> sublist ''instance-count'' hostname_pattern"
    and "describe_auto_scaling_groups w (mutations t) asg_name = Inr (grp # grps)"
  shows "build_hostname w hostname_pattern instance_id asg_name t =
      (case index_of (Instances grp) (PStr instance_id) of
         None \<Rightarrow> (Inl ValueError, t)
       | Some i \<Rightarrow> (Inr (py_replace ''#instance-index'' (str_nat i) hostname_pattern), t))"
  using has_token [OF disjI2, OF assms(1)] assms
  by (simp add: build_hostname_def run item0_def py_index_def split: option.splits)

text \<open>A member of the instance list that is not a string is never equal to the instance
  id: on a list of dictionaries the lookup raises.\<close>

lemma build_hostname_index_of_dicts:
  assumes "sublist ''instance-index'' hostname_pattern"
    and "\<not> sublist ''instance-count'' hostname_pattern"
    and "describe_auto_scaling_groups w (mutations t) asg_name = Inr (grp # grps)"
    and "\<forall>m \<in> set (Instances grp). \<exists>d. m = PDict d"
  shows "build_hostname w hostname_pattern instance_id asg_name t = (Inl ValueError, t)"
proof -
  have "PStr instance_id \<notin> set (Instances grp)"
    using assms(4) by auto
  then have "index_of (Instances grp) (PStr instance_id) = None"
    by (simp add: index_of_None)
  then show ?thesis
    using build_hostname_index_run [OF assms(1-3), of instance_id] by simp
qed

lemma build_hostname_count_run:
  assumes "sublist ''instance-count'' hostname_pattern"
    and "describe_auto_scaling_groups w (mutations t) asg_name = Inr (grp # grps)"
  shows "build_hostname w hostname_pattern instance_id asg_name t =
           (Inr (py_replace ''#instance-count'' (str_int (DesiredCapacity grp)) hostname_pattern), t)"
  using has_token [OF disjI1, OF assms(1)] assms
  by (simp add: build_hostname_def run item0_def)

lemma fetch_tag_metadata_run:
  assumes "describe_tags w (mutations t) asg_name = Inr (tag_value # tags)"
  shows "fetch_tag_metadata w asg_name t =
    (Inr (py_split CHR ''@'' tag_value),
     t @ [Log INFO ''Fetching tags for ASG: %s'' [PStr asg_name],
          Log INFO ''Found tags for ASG %s: %s'' [PStr asg_name, PStr tag_value]])"
  using assms by (simp add: fetch_tag_metadata_def run item0_def)

lemma hash_instance_count:
  assumes "sublist ''#instance-count'' p"
  shows "sublist ''instance-count'' p"
proof -
  from assms obtain ps ss where "p = ps @ ''#instance-count'' @ ss"
    by (auto simp: sublist_def)
  then have "p = (ps @ ''#'') @ ''instance-count'' @ ss"
    by simp
  then show ?thesis
    unfolding sublist_def by blast
qed

lemma process_message_upsert_run:
  assumes "message ''LifecycleTransition'' = Some ''autoscaling:EC2_INSTANCE_LAUNCHING''"
    and "message ''AutoScalingGroupName'' = Some asg_name"
    and "message ''EC2InstanceId'' = Some instance_id"
    and "fetch_tag_metadata w asg_name
           (t @ [Log INFO ''Processing %s event'' [PStr ''autoscaling:EC2_INSTANCE_LAUNCHING'']])
         = (Inr [hostname_pattern, zone_id], t1)"
    and "build_hostname w hostname_pattern instance_id asg_name t1 = (Inr hostname, t2)"
    and "fetch_ip_from_ec2 w instance_id t2 = (Inr ip, t3)"
    and "update_name_tag w instance_id hostname t3 = (Inr (), t4)"
  shows "process_message w message t =
     (change_resource_record_sets w (mutations t4) zone_id ''UPSERT'' hostname ip,
      t4 @ [Log INFO ''Changing record with %s for %s -> %s in %s''
              [PStr ''UPSERT'', PStr hostname, PStr ip, PStr zone_id],
            ChangeResourceRecordSets zone_id ''UPSERT'' hostname ip])"
  using assms
  by (simp add: process_message_def run getitem_def unpack2_def local_var_def update_record_def)

lemma process_message_delete_run:
  assumes "message ''LifecycleTransition'' = Some transition"
    and "transition = ''autoscaling:EC2_INSTANCE_TERMINATING''
         \<or> transition = ''autoscaling:EC2_INSTANCE_LAUNCH_ERROR''"
    and "message ''AutoScalingGroupName'' = Some asg_name"
    and "message ''EC2InstanceId'' = Some instance_id"
    and "fetch_tag_metadata w asg_name (t @ [Log INFO ''Processing %s event'' [PStr transition]])
         = (Inr [hostname_pattern, zone_id], t1)"
    and "build_hostname w hostname_pattern instance_id asg_name t1 = (Inr hostname, t2)"
    and "fetch_ip_from_route53 w hostname zone_id t2 = (Inr ip, t3)"
  shows "process_message w message t =
     (change_resource_record_sets w (mutations t3) zone_id ''DELETE'' hostname ip,
      t3 @ [Log INFO ''Changing record with %s for %s -> %s in %s''
              [PStr ''DELETE'', PStr hostname, PStr ip, PStr zone_id],
            ChangeResourceRecordSets zone_id ''DELETE'' hostname ip])"
  using assms
  by (auto simp: process_message_def run getitem_def unpack2_def local_var_def update_record_def)

lemma lambda_handler_after_loop:
  assumes "Records event \<noteq> []"
    and "process_records w (Records event)
           (t @ [Log INFO (''Processing SNS event: '' @ json_dumps w event) []]) = (Inr (), t1)"
    and "json_loads w (Message (Sns (last (Records event)))) = Inr message"
  shows "lambda_handler w event t =
     (if message LIFECYCLE_KEY \<noteq> None \<and> message ASG_KEY \<noteq> None then
       bind (lift (getitem message ''LifecycleHookName'')) (\<lambda>hook.
       bind (lift (getitem message ''AutoScalingGroupName'')) (\<lambda>asg_name.
       bind (lift (getitem message ''EC2InstanceId'')) (\<lambda>instance_id.
       bind (lift (getitem message ''LifecycleActionToken'')) (\<lambda>token.
       bind (call (CompleteLifecycleAction hook asg_name instance_id token ''CONTINUE'')
               (\<lambda>t. complete_lifecycle_action w t hook asg_name instance_id token ''CONTINUE''))
            (\<lambda>response.
       logger_info ''ASG action complete: %s'' [response])))))
     else
       logger_error ''No valid JSON message'' []) (t1 @ [Log INFO ''Finishing ASG action'' []])"
  using assms
  by (simp add: lambda_handler_def run loop_var_def local_var_def)

section \<open>The claims\<close>

subsection \<open>Hostname patterns\<close>

text \<open>
  C1. The claim asks for the zero-based position of the instance in the group's instance
  list. The service lists the members of a group as dictionaries, \<open>list.index\<close> compares each
  of them with the instance id, a string, and none is equal to it: for \<open>i-1\<close>, the second member
  of \<open>asg1\<close>, \<open>build_hostname\<close> raises \<open>ValueError\<close> where the claim substitutes 1.
\<close>

theorem build_hostname_instance_index_on_dicts:
  "describe_auto_scaling_groups example_world [] ''asg1''
     = Inr [\<lparr>DesiredCapacity = 3,
             Instances = [PDict [(''InstanceId'', PStr ''i-0'')],
                          PDict [(''InstanceId'', PStr ''i-1'')]]\<rparr>]
   \<and> sublist ''instance-index'' ''web-#instance-index.example.com''
   \<and> \<not> sublist ''instance-count'' ''web-#instance-index.example.com''
   \<and> build_hostname example_world ''web-#instance-index.example.com'' ''i-1'' ''asg1'' []
       = (Inl ValueError, [])"
  by code_simp

text \<open>
  C2, as the code has it. For a pattern that contains \<open>#instance-count\<close>, the token with its
  leading \<open>#\<close>, whether or not it also contains \<open>instance-index\<close>, and a group that the
  service describes, \<open>build_hostname\<close> returns the pattern with every \<open>#instance-count\<close>
  replaced by the desired capacity in decimal: in a pattern \<open>pre #instance-count post\<close> with no
  \<open>#\<close> in \<open>pre\<close> and no further occurrence in \<open>post\<close> nothing but the token changes.
\<close>

theorem build_hostname_instance_count:
  assumes "sublist ''#instance-count'' hostname_pattern"
    and "describe_auto_scaling_groups w (mutations t) asg_name = Inr (grp # grps)"
  shows "build_hostname w hostname_pattern instance_id asg_name t =
           (Inr (py_replace ''#instance-count'' (str_int (DesiredCapacity grp)) hostname_pattern), t)
       \<and> (\<forall>pre post. hostname_pattern = pre @ ''#instance-count'' @ post
              \<and> CHR ''#'' \<notin> set pre \<and> \<not> sublist ''#instance-count'' post \<longrightarrow>
            build_hostname w hostname_pattern instance_id asg_name t =
              (Inr (pre @ str_int (DesiredCapacity grp) @ post), t))"
proof (intro conjI allI impI)
  show run: "build_hostname w hostname_pattern instance_id asg_name t =
           (Inr (py_replace ''#instance-count'' (str_int (DesiredCapacity grp)) hostname_pattern), t)"
    using hash_instance_count [OF assms(1)] assms(2) by (rule build_hostname_count_run)
  fix pre post
  assume a: "hostname_pattern = pre @ ''#instance-count'' @ post
              \<and> CHR ''#'' \<notin> set pre \<and> \<not> sublist ''#instance-count'' post"
  then have "py_replace ''#instance-count'' (str_int (DesiredCapacity grp)) hostname_pattern
        = pre @ str_int (DesiredCapacity grp)
            @ py_replace ''#instance-count'' (str_int (DesiredCapacity grp)) post"
    using py_replace_at [of "''#instance-count''" "CHR ''#''" "''instance-count''" pre] by simp
  also have "py_replace ''#instance-count'' (str_int (DesiredCapacity grp)) post = post"
    using a by (simp add: not_sublist_py_replace)
  finally show "build_hostname w hostname_pattern instance_id asg_name t =
              (Inr (pre @ str_int (DesiredCapacity grp) @ post), t)"
    using run by simp
qed

theorem build_hostname_instance_count_witness:
  "sublist ''#instance-count'' ''web-#instance-count-#instance-index.example.com''
   \<and> build_hostname example_world ''web-#instance-count-#instance-index.example.com'' ''i-1'' ''asg1'' []
       = (Inr ''web-3-#instance-index.example.com'', [])"
proof -
  let ?g = "\<lparr>DesiredCapacity = 3,
             Instances = [PDict [(''InstanceId'', PStr ''i-0'')],
                          PDict [(''InstanceId'', PStr ''i-1'')]]\<rparr>"
  have h1: "sublist ''#instance-count'' ''web-#instance-count-#instance-index.example.com''"
    by code_simp
  have h2: "describe_auto_scaling_groups example_world (mutations []) ''asg1'' = Inr (?g # [])"
    by (simp add: example_world_def)
  have h3: "\<not> sublist ''#instance-count'' ''-#instance-index.example.com''"
    by code_simp
  have cap: "str_int (DesiredCapacity ?g) = ''3''"
    by (simp add: str_int_def digit_def)
  have replaced:
    "build_hostname example_world ''web-#instance-count-#instance-index.example.com'' ''i-1'' ''asg1'' []
       = (Inr ''web-3-#instance-index.example.com'', [])"
    using cap h3 build_hostname_instance_count [OF h1 h2, of "''i-1''",
        THEN conjunct2, THEN spec, THEN spec,
        of "''web-''" "''-#instance-index.example.com''"]
    by simp
  from h1 replaced show ?thesis by simp
qed

text \<open>
  The claim as stated speaks of the token \<open>instance-count\<close>. A pattern that contains it
  without the \<open>#\<close> is not returned with the desired capacity, 3, in the token's place.
\<close>

theorem build_hostname_instance_count_counterexample:
  "sublist ''instance-count'' ''web-instance-count.example.com''
   \<and> \<not> sublist ''instance-index'' ''web-instance-count.example.com''
   \<and> \<not> sublist ''instanceid'' ''web-instance-count.example.com''
   \<and> describe_auto_scaling_groups example_world [] ''asg1''
       = Inr [\<lparr>DesiredCapacity = 3,
               Instances = [PDict [(''InstanceId'', PStr ''i-0'')], PDict [(''InstanceId'', PStr ''i-1'')]]\<rparr>]
   \<and> build_hostname example_world ''web-instance-count.example.com'' ''i-1'' ''asg1'' []
       = (Inr ''web-instance-count.example.com'', [])"
  by code_simp

text \<open>
  C4. For a pattern with none of the three tokens \<open>build_hostname\<close> raises \<open>SystemExit(1)\<close>
  and has requested no mutation; and \<open>process_message\<close>, for a message whose group carries
  such a pattern, ends with the same \<open>SystemExit(1)\<close> before any tag update or DNS change.
\<close>

theorem build_hostname_without_token:
  assumes "\<not> sublist ''instanceid'' hostname_pattern"
    and "\<not> sublist ''instance-count'' hostname_pattern"
    and "\<not> sublist ''instance-index'' hostname_pattern"
  shows "fst (build_hostname w hostname_pattern instance_id asg_name t) = Inl (SystemExit 1)
       \<and> mutations (snd (build_hostname w hostname_pattern instance_id asg_name t)) = mutations t
       \<and> (\<forall>message transition tag_value tags zone_id.
             message ''LifecycleTransition'' = Some transition
           \<and> message ''AutoScalingGroupName'' = Some asg_name
           \<and> message ''EC2InstanceId'' = Some instance_id
           \<and> describe_tags w (mutations t) asg_name = Inr (tag_value # tags)
           \<and> py_split CHR ''@'' tag_value = [hostname_pattern, zone_id] \<longrightarrow>
             fst (process_message w message t) = Inl (SystemExit 1)
           \<and> mutations (snd (process_message w message t)) = mutations t)"
proof (intro conjI allI impI)
  note bh = build_hostname_no_token [OF assms]
  show "fst (build_hostname w hostname_pattern instance_id asg_name t) = Inl (SystemExit 1)"
    by (simp add: bh)
  show "mutations (snd (build_hostname w hostname_pattern instance_id asg_name t)) = mutations t"
    by (simp add: bh)
  fix message transition tag_value tags zone_id
  assume a: "message ''LifecycleTransition'' = Some transition
           \<and> message ''AutoScalingGroupName'' = Some asg_name
           \<and> message ''EC2InstanceId'' = Some instance_id
           \<and> describe_tags w (mutations t) asg_name = Inr (tag_value # tags)
           \<and> py_split CHR ''@'' tag_value = [hostname_pattern, zone_id]"
  show "fst (process_message w message t) = Inl (SystemExit 1)"
    using a by (simp add: process_message_def run getitem_def fetch_tag_metadata_run bh unpack2_def)
  show "mutations (snd (process_message w message t)) = mutations t"
    using a by (simp add: process_message_def run getitem_def fetch_tag_metadata_run bh unpack2_def)
qed

theorem build_hostname_without_token_witness:
  "\<not> sublist ''instanceid'' ''web.example.com''
   \<and> \<not> sublist ''instance-count'' ''web.example.com''
   \<and> \<not> sublist ''instance-index'' ''web.example.com''
   \<and> fst (build_hostname patternless_world ''web.example.com'' ''i-1'' ''asg1'' []) = Inl (SystemExit 1)
   \<and> fst (process_message patternless_world launch_message []) = Inl (SystemExit 1)
   \<and> mutations (snd (process_message patternless_world launch_message [])) = []"
proof -
  have h1: "\<not> sublist ''instanceid'' ''web.example.com''" by code_simp
  have h2: "\<not> sublist ''instance-count'' ''web.example.com''" by code_simp
  have h3: "\<not> sublist ''instance-index'' ''web.example.com''" by code_simp
  have m: "launch_message ''LifecycleTransition'' = Some ''autoscaling:EC2_INSTANCE_LAUNCHING''
           \<and> launch_message ''AutoScalingGroupName'' = Some ''asg1''
           \<and> launch_message ''EC2InstanceId'' = Some ''i-1''
           \<and> describe_tags patternless_world (mutations []) ''asg1'' = Inr (''web.example.com@ZONE1'' # [])
           \<and> py_split CHR ''@'' ''web.example.com@ZONE1'' = [''web.example.com'', ''ZONE1'']"
    by (simp add: launch_message_def patternless_world_def example_world_def)
  note T = build_hostname_without_token [OF h1 h2 h3, of patternless_world "''i-1''" "''asg1''" "[]"]
  from T have a: "fst (build_hostname patternless_world ''web.example.com'' ''i-1'' ''asg1'' []) = Inl (SystemExit 1)"
    by simp
  from T m have b: "fst (process_message patternless_world launch_message []) = Inl (SystemExit 1)
           \<and> mutations (snd (process_message patternless_world launch_message [])) = mutations []"
    by blast
  from h1 h2 h3 a b show ?thesis by simp
qed

subsection \<open>Messages\<close>

text \<open>
  C3. For a message whose transition is \<open>autoscaling:EC2_INSTANCE_LAUNCHING\<close>,
  \<open>process_message\<close> requests at most one DNS change and its operation is \<open>UPSERT\<close>; for
  \<open>autoscaling:EC2_INSTANCE_TERMINATING\<close> and \<open>autoscaling:EC2_INSTANCE_LAUNCH_ERROR\<close> it is
  \<open>DELETE\<close>. The change is requested whenever the steps before it return: with the tag
  read and the hostname built, a launch whose address is fetched and whose name tag is set
  ends with the \<open>UPSERT\<close> of that hostname and address, and a termination or launch error
  whose address is found in the zone ends with the \<open>DELETE\<close> of them.
\<close>

theorem process_message_operation:
  assumes "message ''LifecycleTransition'' = Some transition"
  shows "(transition = ''autoscaling:EC2_INSTANCE_LAUNCHING'' \<longrightarrow>
            (dns_operations (snd (process_message w message t)) = dns_operations t @ [''UPSERT'']
             \<or> dns_operations (snd (process_message w message t)) = dns_operations t
               \<and> fst (process_message w message t) \<noteq> Inr ()))
       \<and> (transition = ''autoscaling:EC2_INSTANCE_TERMINATING''
            \<or> transition = ''autoscaling:EC2_INSTANCE_LAUNCH_ERROR'' \<longrightarrow>
            (dns_operations (snd (process_message w message t)) = dns_operations t @ [''DELETE'']
             \<or> dns_operations (snd (process_message w message t)) = dns_operations t
               \<and> fst (process_message w message t) \<noteq> Inr ()))
       \<and> (\<forall>asg_name instance_id hostname_pattern zone_id hostname t1 t2.
             message ''AutoScalingGroupName'' = Some asg_name
           \<and> message ''EC2InstanceId'' = Some instance_id
           \<and> fetch_tag_metadata w asg_name (t @ [Log INFO ''Processing %s event'' [PStr transition]])
               = (Inr [hostname_pattern, zone_id], t1)
           \<and> build_hostname w hostname_pattern instance_id asg_name t1 = (Inr hostname, t2) \<longrightarrow>
             (transition = ''autoscaling:EC2_INSTANCE_LAUNCHING'' \<longrightarrow>
                (\<forall>ip t3 t4. fetch_ip_from_ec2 w instance_id t2 = (Inr ip, t3)
                    \<and> update_name_tag w instance_id hostname t3 = (Inr (), t4) \<longrightarrow>
                  process_message w message t =
                    (change_resource_record_sets w (mutations t4) zone_id ''UPSERT'' hostname ip,
                     t4 @ [Log INFO ''Changing record with %s for %s -> %s in %s''
                             [PStr ''UPSERT'', PStr hostname, PStr ip, PStr zone_id],
                           ChangeResourceRecordSets zone_id ''UPSERT'' hostname ip])))
           \<and> (transition = ''autoscaling:EC2_INSTANCE_TERMINATING''
                \<or> transition = ''autoscaling:EC2_INSTANCE_LAUNCH_ERROR'' \<longrightarrow>
                (\<forall>ip t3. fetch_ip_from_route53 w hostname zone_id t2 = (Inr ip, t3) \<longrightarrow>
                  process_message w message t =
                    (change_resource_record_sets w (mutations t3) zone_id ''DELETE'' hostname ip,
                     t3 @ [Log INFO ''Changing record with %s for %s -> %s in %s''
                             [PStr ''DELETE'', PStr hostname, PStr ip, PStr zone_id],
                           ChangeResourceRecordSets zone_id ''DELETE'' hostname ip]))))"
proof (intro conjI allI impI)
  assume "transition = ''autoscaling:EC2_INSTANCE_LAUNCHING''"
  with assms have "ends dns_operations ''UPSERT'' (process_message w message)"
    by (simp add: ends_process_message_launching)
  then show "dns_operations (snd (process_message w message t)) = dns_operations t @ [''UPSERT'']
             \<or> dns_operations (snd (process_message w message t)) = dns_operations t
               \<and> fst (process_message w message t) \<noteq> Inr ()"
    unfolding ends_def by (auto dest!: spec [of _ t])
next
  assume "transition = ''autoscaling:EC2_INSTANCE_TERMINATING''
            \<or> transition = ''autoscaling:EC2_INSTANCE_LAUNCH_ERROR''"
  with assms have "ends dns_operations ''DELETE'' (process_message w message)"
    by (rule ends_process_message_terminating)
  then show "dns_operations (snd (process_message w message t)) = dns_operations t @ [''DELETE'']
             \<or> dns_operations (snd (process_message w message t)) = dns_operations t
               \<and> fst (process_message w message t) \<noteq> Inr ()"
    unfolding ends_def by (auto dest!: spec [of _ t])
next
  fix asg_name instance_id hostname_pattern zone_id hostname t1 t2 ip t3 t4
  assume pre: "message ''AutoScalingGroupName'' = Some asg_name
           \<and> message ''EC2InstanceId'' = Some instance_id
           \<and> fetch_tag_metadata w asg_name (t @ [Log INFO ''Processing %s event'' [PStr transition]])
               = (Inr [hostname_pattern, zone_id], t1)
           \<and> build_hostname w hostname_pattern instance_id asg_name t1 = (Inr hostname, t2)"
    and tr: "transition = ''autoscaling:EC2_INSTANCE_LAUNCHING''"
    and up: "fetch_ip_from_ec2 w instance_id t2 = (Inr ip, t3)
                    \<and> update_name_tag w instance_id hostname t3 = (Inr (), t4)"
  show "process_message w message t =
                    (change_resource_record_sets w (mutations t4) zone_id ''UPSERT'' hostname ip,
                     t4 @ [Log INFO ''Changing record with %s for %s -> %s in %s''
                             [PStr ''UPSERT'', PStr hostname, PStr ip, PStr zone_id],
                           ChangeResourceRecordSets zone_id ''UPSERT'' hostname ip])"
  proof -
    from assms tr
    have m: "message ''LifecycleTransition'' = Some ''autoscaling:EC2_INSTANCE_LAUNCHING''"
      by simp
    from pre tr
    have f: "fetch_tag_metadata w asg_name
               (t @ [Log INFO ''Processing %s event'' [PStr ''autoscaling:EC2_INSTANCE_LAUNCHING'']])
             = (Inr [hostname_pattern, zone_id], t1)"
      by simp
    from pre have a: "message ''AutoScalingGroupName'' = Some asg_name"
      and i: "message ''EC2InstanceId'' = Some instance_id"
      and b: "build_hostname w hostname_pattern instance_id asg_name t1 = (Inr hostname, t2)"
      by simp_all
    from up have u1: "fetch_ip_from_ec2 w instance_id t2 = (Inr ip, t3)"
      and u2: "update_name_tag w instance_id hostname t3 = (Inr (), t4)"
      by simp_all
    show ?thesis
      by (rule process_message_upsert_run [where message = message, OF m a i f b u1 u2])
  qed
next
  fix asg_name instance_id hostname_pattern zone_id hostname t1 t2 ip t3
  assume pre: "message ''AutoScalingGroupName'' = Some asg_name
           \<and> message ''EC2InstanceId'' = Some instance_id
           \<and> fetch_tag_metadata w asg_name (t @ [Log INFO ''Processing %s event'' [PStr transition]])
               = (Inr [hostname_pattern, zone_id], t1)
           \<and> build_hostname w hostname_pattern instance_id asg_name t1 = (Inr hostname, t2)"
    and tr: "transition = ''autoscaling:EC2_INSTANCE_TERMINATING''
                \<or> transition = ''autoscaling:EC2_INSTANCE_LAUNCH_ERROR''"
    and del: "fetch_ip_from_route53 w hostname zone_id t2 = (Inr ip, t3)"
  show "process_message w message t =
                    (change_resource_record_sets w (mutations t3) zone_id ''DELETE'' hostname ip,
                     t3 @ [Log INFO ''Changing record with %s for %s -> %s in %s''
                             [PStr ''DELETE'', PStr hostname, PStr ip, PStr zone_id],
                           ChangeResourceRecordSets zone_id ''DELETE'' hostname ip])"
  proof -
    from pre have a: "message ''AutoScalingGroupName'' = Some asg_name"
      and i: "message ''EC2InstanceId'' = Some instance_id"
      and f: "fetch_tag_metadata w asg_name
                (t @ [Log INFO ''Processing %s event'' [PStr transition]])
              = (Inr [hostname_pattern, zone_id], t1)"
      and b: "build_hostname w hostname_pattern instance_id asg_name t1 = (Inr hostname, t2)"
      by simp_all
    show ?thesis
      by (rule process_message_delete_run [where message = message, OF assms tr a i f b del])
  qed
qed

theorem process_message_operation_witness:
  "process_message example_world launch_message [] =
     (Inr (),
      snd (update_name_tag example_world ''i-1'' ''web-i-1.example.com''
        (snd (fetch_ip_from_ec2 example_world ''i-1''
          (snd (fetch_tag_metadata example_world ''asg1''
            [Log INFO ''Processing %s event'' [PStr ''autoscaling:EC2_INSTANCE_LAUNCHING'']])))))
      @ [Log INFO ''Changing record with %s for %s -> %s in %s''
           [PStr ''UPSERT'', PStr ''web-i-1.example.com'', PStr ''10.0.0.5'', PStr ''ZONE1''],
         ChangeResourceRecordSets ''ZONE1'' ''UPSERT'' ''web-i-1.example.com'' ''10.0.0.5''])
   \<and> process_message example_world launch_error_message [] =
     (Inr (),
      snd (fetch_ip_from_route53 example_world ''web-i-1.example.com'' ''ZONE1''
        (snd (fetch_tag_metadata example_world ''asg1''
          [Log INFO ''Processing %s event'' [PStr ''autoscaling:EC2_INSTANCE_LAUNCH_ERROR'']])))
      @ [Log INFO ''Changing record with %s for %s -> %s in %s''
           [PStr ''DELETE'', PStr ''web-i-1.example.com'', PStr ''10.0.0.5'', PStr ''ZONE1''],
         ChangeResourceRecordSets ''ZONE1'' ''DELETE'' ''web-i-1.example.com'' ''10.0.0.5''])
   \<and> dns_operations (snd (process_message example_world launch_message [])) = [''UPSERT'']
   \<and> dns_operations (snd (process_message example_world terminate_message [])) = [''DELETE'']
   \<and> dns_operations (snd (process_message example_world launch_error_message [])) = [''DELETE'']"
proof -
  let ?L = "''autoscaling:EC2_INSTANCE_LAUNCHING''"
  let ?T = "''autoscaling:EC2_INSTANCE_TERMINATING''"
  let ?E = "''autoscaling:EC2_INSTANCE_LAUNCH_ERROR''"
  let ?l1 = "snd (fetch_tag_metadata example_world ''asg1'' [Log INFO ''Processing %s event'' [PStr ?L]])"
  let ?l3 = "snd (fetch_ip_from_ec2 example_world ''i-1'' ?l1)"
  let ?l4 = "snd (update_name_tag example_world ''i-1'' ''web-i-1.example.com'' ?l3)"
  let ?e1 = "snd (fetch_tag_metadata example_world ''asg1'' [Log INFO ''Processing %s event'' [PStr ?E]])"
  let ?e3 = "snd (fetch_ip_from_route53 example_world ''web-i-1.example.com'' ''ZONE1'' ?e1)"
  have l: "launch_message ''LifecycleTransition'' = Some ?L"
    and t: "terminate_message ''LifecycleTransition'' = Some ?T"
    and e: "launch_error_message ''LifecycleTransition'' = Some ?E"
    by (simp_all add: launch_message_def terminate_message_def launch_error_message_def)
  have lm: "launch_message ''AutoScalingGroupName'' = Some ''asg1''
            \<and> launch_message ''EC2InstanceId'' = Some ''i-1''"
    and em: "launch_error_message ''AutoScalingGroupName'' = Some ''asg1''
            \<and> launch_error_message ''EC2InstanceId'' = Some ''i-1''"
    by (simp_all add: launch_message_def launch_error_message_def)
  have l1: "fetch_tag_metadata example_world ''asg1'' ([] @ [Log INFO ''Processing %s event'' [PStr ?L]])
            = (Inr [''web-#instanceid.example.com'', ''ZONE1''], ?l1)"
    by (simp add: prod_eq_iff) code_simp
  have l2: "build_hostname example_world ''web-#instanceid.example.com'' ''i-1'' ''asg1'' ?l1
            = (Inr ''web-i-1.example.com'', ?l1)"
    by code_simp
  have l3: "fetch_ip_from_ec2 example_world ''i-1'' ?l1 = (Inr ''10.0.0.5'', ?l3)"
    by (simp add: prod_eq_iff) code_simp
  have l4: "update_name_tag example_world ''i-1'' ''web-i-1.example.com'' ?l3 = (Inr (), ?l4)"
    by (simp add: prod_eq_iff) code_simp
  have lc: "change_resource_record_sets example_world (mutations ?l4) ''ZONE1'' ''UPSERT''
              ''web-i-1.example.com'' ''10.0.0.5'' = Inr ()"
    by (simp add: example_world_def)
  have e1: "fetch_tag_metadata example_world ''asg1'' ([] @ [Log INFO ''Processing %s event'' [PStr ?E]])
            = (Inr [''web-#instanceid.example.com'', ''ZONE1''], ?e1)"
    by (simp add: prod_eq_iff) code_simp
  have e2: "build_hostname example_world ''web-#instanceid.example.com'' ''i-1'' ''asg1'' ?e1
            = (Inr ''web-i-1.example.com'', ?e1)"
    by code_simp
  have e3: "fetch_ip_from_route53 example_world ''web-i-1.example.com'' ''ZONE1'' ?e1
            = (Inr ''10.0.0.5'', ?e3)"
    by (simp add: prod_eq_iff) code_simp
  have ec: "change_resource_record_sets example_world (mutations ?e3) ''ZONE1'' ''DELETE''
              ''web-i-1.example.com'' ''10.0.0.5'' = Inr ()"
    by (simp add: example_world_def)
  note L = process_message_operation
      [where message = launch_message and w = example_world and t = "[]", OF l]
  note T = process_message_operation
      [where message = terminate_message and w = example_world and t = "[]", OF t]
  note E = process_message_operation
      [where message = launch_error_message and w = example_world and t = "[]", OF e]
  have lrun: "process_message example_world launch_message [] =
     (Inr (), ?l4 @ [Log INFO ''Changing record with %s for %s -> %s in %s''
           [PStr ''UPSERT'', PStr ''web-i-1.example.com'', PStr ''10.0.0.5'', PStr ''ZONE1''],
         ChangeResourceRecordSets ''ZONE1'' ''UPSERT'' ''web-i-1.example.com'' ''10.0.0.5''])"
    using L lm l1 l2 l3 l4 lc by (metis (no_types, lifting))
  have erun: "process_message example_world launch_error_message [] =
     (Inr (), ?e3 @ [Log INFO ''Changing record with %s for %s -> %s in %s''
           [PStr ''DELETE'', PStr ''web-i-1.example.com'', PStr ''10.0.0.5'', PStr ''ZONE1''],
         ChangeResourceRecordSets ''ZONE1'' ''DELETE'' ''web-i-1.example.com'' ''10.0.0.5''])"
    using E em e1 e2 e3 ec by (metis (no_types, lifting))
  have ls: "fst (process_message example_world launch_message []) = Inr ()"
    using lrun by simp
  have es: "fst (process_message example_world launch_error_message []) = Inr ()"
    using erun by simp
  have ts: "fst (process_message example_world terminate_message []) = Inr ()"
    by code_simp
  have "dns_operations (snd (process_message example_world launch_message [])) = [''UPSERT'']"
    using L ls by simp
  moreover have "dns_operations (snd (process_message example_world terminate_message [])) = [''DELETE'']"
    using T ts by simp
  moreover have "dns_operations (snd (process_message example_world launch_error_message [])) = [''DELETE'']"
    using E es by simp
  ultimately show ?thesis
    using lrun erun by simp
qed

text \<open>
  C7. For a message whose transition is none of the three known values, \<open>process_message\<close>
  logs the error \<open>Encountered unknown event type\<close>, goes on, and ends with an exception
  without having requested any mutation.
\<close>

theorem process_message_unknown_transition:
  assumes "message ''LifecycleTransition'' = Some transition"
    and "transition \<noteq> ''autoscaling:EC2_INSTANCE_LAUNCHING''"
    and "transition \<noteq> ''autoscaling:EC2_INSTANCE_TERMINATING''"
    and "transition \<noteq> ''autoscaling:EC2_INSTANCE_LAUNCH_ERROR''"
  shows "(\<exists>e. fst (process_message w message t) = Inl e)
       \<and> Log ERROR ''Encountered unknown event type: %s'' [PStr transition]
           \<in> set (snd (process_message w message t))
       \<and> mutations (snd (process_message w message t)) = mutations t"
  using assms
  by (auto simp: prog_defs split: sum.splits list.splits option.splits prod.splits if_splits)

theorem process_message_unknown_transition_witness:
  "fst (process_message example_world reboot_message []) = Inl (UnboundLocalError ''operation'')
   \<and> Log ERROR ''Encountered unknown event type: %s'' [PStr ''autoscaling:EC2_INSTANCE_REBOOTING'']
       \<in> set (snd (process_message example_world reboot_message []))
   \<and> mutations (snd (process_message example_world reboot_message [])) = []"
proof -
  have h: "reboot_message ''LifecycleTransition'' = Some ''autoscaling:EC2_INSTANCE_REBOOTING''"
    by (simp add: reboot_message_def)
  have r: "fst (process_message example_world reboot_message [])
             = Inl (UnboundLocalError ''operation'')"
    by code_simp
  show ?thesis
    using process_message_unknown_transition
        [where message = reboot_message and w = example_world and t = "[]", OF h] r
    by auto
qed

text \<open>
  C9. For a message without \<open>LifecycleTransition\<close>, \<open>process_message\<close> reads \<open>Event\<close>: it logs
  the event and returns when the field is there, and raises \<open>KeyError\<close> when it is not.
\<close>

theorem process_message_without_transition:
  assumes "message ''LifecycleTransition'' = None"
  shows "(\<forall>ev. message ''Event'' = Some ev \<longrightarrow>
            process_message w message t = (Inr (), t @ [Log INFO ''Processing %s event'' [PStr ev]]))
       \<and> (message ''Event'' = None \<longrightarrow>
            process_message w message t = (Inl (KeyError ''Event''), t))"
  using assms by (simp add: process_message_def run getitem_def)

theorem process_message_without_transition_witness:
  "process_message example_world test_message [] =
     (Inr (), [Log INFO ''Processing %s event'' [PStr ''autoscaling:TEST_NOTIFICATION'']])
   \<and> process_message example_world Map.empty [] = (Inl (KeyError ''Event''), [])"
proof -
  have a: "test_message ''LifecycleTransition'' = None"
    by (simp add: test_message_def)
  have b: "test_message ''Event'' = Some ''autoscaling:TEST_NOTIFICATION''"
    by (simp add: test_message_def)
  have c: "(Map.empty :: message) ''LifecycleTransition'' = None"
    by simp
  show ?thesis
    using process_message_without_transition
        [where message = test_message and w = example_world and t = "[]", OF a] b
      process_message_without_transition
        [where message = Map.empty and w = example_world and t = "[]", OF c]
    by simp
qed

subsection \<open>Addresses\<close>

text \<open>
  C8. \<open>fetch_ip_from_ec2\<close> reads \<open>PublicIpAddress\<close> of the first instance of the first
  reservation when the environment variable \<open>use_public_ip\<close> is \<open>"true"\<close>, and
  \<open>PrivateIpAddress\<close> for any other value and when the variable is not set.
\<close>

theorem fetch_ip_from_ec2_flag:
  assumes "describe_instances w (mutations t) instance_id = Inr ((inst # insts) # reservations)"
  shows "(environ w ''use_public_ip'' = Some ''true'' \<longrightarrow>
            fst (fetch_ip_from_ec2 w instance_id t) = field ''PublicIpAddress'' (PublicIpAddress inst))
       \<and> (environ w ''use_public_ip'' \<noteq> Some ''true'' \<longrightarrow>
            fst (fetch_ip_from_ec2 w instance_id t) = field ''PrivateIpAddress'' (PrivateIpAddress inst))"
  using assms
  by (simp add: fetch_ip_from_ec2_def run item0_def field_def split: option.splits)

theorem fetch_ip_from_ec2_flag_witness:
  "fst (fetch_ip_from_ec2 public_world ''i-1'' []) = Inr ''54.1.2.3''
   \<and> fst (fetch_ip_from_ec2 example_world ''i-1'' []) = Inr ''10.0.0.5''"
proof -
  let ?i = "\<lparr>PublicIpAddress = Some ''54.1.2.3'', PrivateIpAddress = Some ''10.0.0.5''\<rparr>"
  have p: "describe_instances public_world (mutations []) ''i-1'' = Inr ((?i # []) # [])"
    by (simp add: public_world_def example_world_def)
  have e: "describe_instances example_world (mutations []) ''i-1'' = Inr ((?i # []) # [])"
    by (simp add: example_world_def)
  have pf: "environ public_world ''use_public_ip'' = Some ''true''"
    by (simp add: public_world_def)
  have ef: "environ example_world ''use_public_ip'' \<noteq> Some ''true''"
    by (simp add: example_world_def)
  show ?thesis
    using fetch_ip_from_ec2_flag [OF p] fetch_ip_from_ec2_flag [OF e] pf ef
    by (simp add: field_def)
qed

subsection \<open>The handler\<close>

text \<open>
  C5, as the code has it. For a batch that is not empty, whose records are all processed
  without an exception and whose last message lacks \<open>LifecycleHookName\<close> or
  \<open>AutoScalingGroupName\<close>, \<open>lambda_handler\<close> logs the error \<open>No valid JSON message\<close>, requests
  no lifecycle completion and returns.
\<close>

theorem lambda_handler_skips_completion:
  assumes "Records event \<noteq> []"
    and "fst (process_records w (Records event)
           (t @ [Log INFO (''Processing SNS event: '' @ json_dumps w event) []])) = Inr ()"
    and "json_loads w (Message (Sns (last (Records event)))) = Inr message"
    and "message ''LifecycleHookName'' = None \<or> message ''AutoScalingGroupName'' = None"
  shows "fst (lambda_handler w event t) = Inr ()
       \<and> last (snd (lambda_handler w event t)) = Log ERROR ''No valid JSON message'' []
       \<and> completions (snd (lambda_handler w event t)) = completions t"
proof -
  let ?t0 = "t @ [Log INFO (''Processing SNS event: '' @ json_dumps w event) []]"
  obtain t1 where loop: "process_records w (Records event) ?t0 = (Inr (), t1)"
    using assms(2) by (cases "process_records w (Records event) ?t0") auto
  have "completions t1 = completions ?t0"
    using process_records_completions [of w "Records event" ?t0] loop by simp
  then have c: "completions t1 = completions t" by simp
  have "lambda_handler w event t =
      (Inr (), t1 @ [Log INFO ''Finishing ASG action'' [], Log ERROR ''No valid JSON message'' []])"
    using lambda_handler_after_loop [OF assms(1) loop assms(3)] assms(4)
    by (auto simp: LIFECYCLE_KEY_def ASG_KEY_def run)
  with c show ?thesis by simp
qed

theorem lambda_handler_skips_completion_witness:
  "lambda_handler example_world (batch [''launch'', ''test'']) [] =
     (Inr (), snd (lambda_handler example_world (batch [''launch'', ''test'']) []))
   \<and> last (snd (lambda_handler example_world (batch [''launch'', ''test'']) []))
       = Log ERROR ''No valid JSON message'' []
   \<and> completions (snd (lambda_handler example_world (batch [''launch'', ''test'']) [])) = []"
proof -
  let ?ev = "batch [''launch'', ''test'']"
  have h1: "Records ?ev \<noteq> []"
    by (simp add: batch_def)
  have h2: "fst (process_records example_world (Records ?ev)
           ([] @ [Log INFO (''Processing SNS event: '' @ json_dumps example_world ?ev) []])) = Inr ()"
    by code_simp
  have h3: "json_loads example_world (Message (Sns (last (Records ?ev)))) = Inr test_message"
    by (simp add: batch_def example_world_def example_loads_def)
  have h4: "test_message ''LifecycleHookName'' = None \<or> test_message ''AutoScalingGroupName'' = None"
    by (simp add: test_message_def)
  show ?thesis
    using lambda_handler_skips_completion [OF h1 h2 h3 h4]
    by (simp add: prod_eq_iff)
qed

text \<open>
  The claim as stated includes the empty batch. There the loop variable \<open>record\<close> is never
  assigned, and reading it after the loop raises. It also includes the batches in which a
  record raises inside the loop: the handler then ends with that exception, whatever the
  last message holds.
\<close>

theorem lambda_handler_skips_completion_counterexample:
  "lambda_handler example_world (batch []) [] =
     (Inl (UnboundLocalError ''record''),
      [Log INFO ''Processing SNS event: {}'' [], Log INFO ''Finishing ASG action'' []])
   \<and> json_loads untagged_world (Message (Sns (last (Records (batch [''launch'', ''test''])))))
       = Inr test_message
   \<and> test_message ''LifecycleHookName'' = None
   \<and> lambda_handler untagged_world (batch [''launch'', ''test'']) [] =
     (Inl IndexError,
      [Log INFO ''Processing SNS event: {}'' [],
       Log INFO ''Processing %s event'' [PStr ''autoscaling:EC2_INSTANCE_LAUNCHING''],
       Log INFO ''Fetching tags for ASG: %s'' [PStr ''asg1'']])"
proof -
  have a: "lambda_handler example_world (batch []) [] =
     (Inl (UnboundLocalError ''record''),
      [Log INFO ''Processing SNS event: {}'' [], Log INFO ''Finishing ASG action'' []])"
    by code_simp
  have b: "lambda_handler untagged_world (batch [''launch'', ''test'']) [] =
     (Inl IndexError,
      [Log INFO ''Processing SNS event: {}'' [],
       Log INFO ''Processing %s event'' [PStr ''autoscaling:EC2_INSTANCE_LAUNCHING''],
       Log INFO ''Fetching tags for ASG: %s'' [PStr ''asg1'']])"
    by code_simp
  show ?thesis
    using a b
    by (simp add: batch_def untagged_world_def example_world_def example_loads_def
        test_message_def)
qed

text \<open>
  C6, as the code has it. For a batch that is not empty, whose records are all processed
  without an exception and whose last message carries \<open>LifecycleHookName\<close>,
  \<open>AutoScalingGroupName\<close>, \<open>EC2InstanceId\<close> and \<open>LifecycleActionToken\<close>, \<open>lambda_handler\<close>
  requests exactly one lifecycle completion, with the result \<open>CONTINUE\<close> and those four
  values, however many records the batch has.
\<close>

theorem lambda_handler_completes_last:
  assumes "Records event \<noteq> []"
    and "fst (process_records w (Records event)
           (t @ [Log INFO (''Processing SNS event: '' @ json_dumps w event) []])) = Inr ()"
    and "json_loads w (Message (Sns (last (Records event)))) = Inr message"
    and "message ''LifecycleHookName'' = Some hook"
    and "message ''AutoScalingGroupName'' = Some asg_name"
    and "message ''EC2InstanceId'' = Some instance_id"
    and "message ''LifecycleActionToken'' = Some token"
  shows "completions (snd (lambda_handler w event t)) =
           completions t @ [CompleteLifecycleAction hook asg_name instance_id token ''CONTINUE'']"
proof -
  let ?t0 = "t @ [Log INFO (''Processing SNS event: '' @ json_dumps w event) []]"
  obtain t1 where loop: "process_records w (Records event) ?t0 = (Inr (), t1)"
    using assms(2) by (cases "process_records w (Records event) ?t0") auto
  have "completions t1 = completions ?t0"
    using process_records_completions [of w "Records event" ?t0] loop by simp
  then have c: "completions t1 = completions t" by simp
  show ?thesis
    using lambda_handler_after_loop [OF assms(1) loop assms(3)] assms(4-7) c
    by (auto simp: LIFECYCLE_KEY_def ASG_KEY_def run getitem_def split: sum.splits)
qed

theorem lambda_handler_completes_last_witness:
  "completions (snd (lambda_handler example_world (batch [''test'', ''launch'']) [])) =
     [CompleteLifecycleAction ''hook1'' ''asg1'' ''i-1'' ''token1'' ''CONTINUE'']"
proof -
  let ?ev = "batch [''test'', ''launch'']"
  have h1: "Records ?ev \<noteq> []"
    by (simp add: batch_def)
  have h2: "fst (process_records example_world (Records ?ev)
           ([] @ [Log INFO (''Processing SNS event: '' @ json_dumps example_world ?ev) []])) = Inr ()"
    by code_simp
  have h3: "json_loads example_world (Message (Sns (last (Records ?ev)))) = Inr launch_message"
    by (simp add: batch_def example_world_def example_loads_def)
  have h4: "launch_message ''LifecycleHookName'' = Some ''hook1''"
    and h5: "launch_message ''AutoScalingGroupName'' = Some ''asg1''"
    and h6: "launch_message ''EC2InstanceId'' = Some ''i-1''"
    and h7: "launch_message ''LifecycleActionToken'' = Some ''token1''"
    by (simp_all add: launch_message_def)
  show ?thesis
    using lambda_handler_completes_last [OF h1 h2 h3 h4 h5 h6 h7] by simp
qed

text \<open>
  The claim as stated asks only for the hook name and the group name in the last message.
  With both present no completion is requested when a record fails in the loop (here the
  group has no hostname tag), nor when the last message has no action token.
\<close>

theorem lambda_handler_completes_last_counterexample:
  "Records (batch [''launch'']) \<noteq> []
   \<and> json_loads untagged_world (Message (Sns (last (Records (batch [''launch'']))))) = Inr launch_message
   \<and> launch_message ''LifecycleHookName'' = Some ''hook1''
   \<and> launch_message ''AutoScalingGroupName'' = Some ''asg1''
   \<and> fst (lambda_handler untagged_world (batch [''launch'']) []) = Inl IndexError
   \<and> completions (snd (lambda_handler untagged_world (batch [''launch'']) [])) = []
   \<and> Records (batch [''tokenless'']) \<noteq> []
   \<and> json_loads example_world (Message (Sns (last (Records (batch [''tokenless''])))))
       = Inr tokenless_message
   \<and> tokenless_message ''LifecycleHookName'' = Some ''hook1''
   \<and> tokenless_message ''AutoScalingGroupName'' = Some ''asg1''
   \<and> fst (lambda_handler example_world (batch [''tokenless'']) [])
       = Inl (KeyError ''LifecycleActionToken'')
   \<and> completions (snd (lambda_handler example_world (batch [''tokenless'']) [])) = []"
proof -
  have a: "fst (lambda_handler untagged_world (batch [''launch'']) []) = Inl IndexError"
    by code_simp
  have b: "completions (snd (lambda_handler untagged_world (batch [''launch'']) [])) = []"
    by code_simp
  have c: "fst (lambda_handler example_world (batch [''tokenless'']) [])
       = Inl (KeyError ''LifecycleActionToken'')"
    by code_simp
  have d: "completions (snd (lambda_handler example_world (batch [''tokenless'']) [])) = []"
    by code_simp
  show ?thesis
    using a b c d
    by (simp add: batch_def untagged_world_def example_world_def example_loads_def
        launch_message_def tokenless_message_def)
qed

text \<open>
  C10. The guard before the completion looks at \<open>LifecycleHookName\<close> and
  \<open>AutoScalingGroupName\<close> only: when the loop is over and the last message has both but
  lacks \<open>EC2InstanceId\<close> or \<open>LifecycleActionToken\<close>, the handler raises \<open>KeyError\<close> for the
  first of the two that is missing; it neither logs \<open>No valid JSON message\<close> nor requests a
  completion.
\<close>

theorem lambda_handler_guard_two_keys:
  assumes "Records event \<noteq> []"
    and "fst (process_records w (Records event)
           (t @ [Log INFO (''Processing SNS event: '' @ json_dumps w event) []])) = Inr ()"
    and "json_loads w (Message (Sns (last (Records event)))) = Inr message"
    and "message ''LifecycleHookName'' = Some hook"
    and "message ''AutoScalingGroupName'' = Some asg_name"
    and "message ''EC2InstanceId'' = None \<or> message ''LifecycleActionToken'' = None"
  shows "fst (lambda_handler w event t) =
           Inl (KeyError (if message ''EC2InstanceId'' = None then ''EC2InstanceId''
                          else ''LifecycleActionToken''))
       \<and> last (snd (lambda_handler w event t)) = Log INFO ''Finishing ASG action'' []
       \<and> completions (snd (lambda_handler w event t)) = completions t"
proof -
  let ?t0 = "t @ [Log INFO (''Processing SNS event: '' @ json_dumps w event) []]"
  obtain t1 where loop: "process_records w (Records event) ?t0 = (Inr (), t1)"
    using assms(2) by (cases "process_records w (Records event) ?t0") auto
  have "completions t1 = completions ?t0"
    using process_records_completions [of w "Records event" ?t0] loop by simp
  then have c: "completions t1 = completions t" by simp
  show ?thesis
    using lambda_handler_after_loop [OF assms(1) loop assms(3)] assms(4-6) c
    by (auto simp: LIFECYCLE_KEY_def ASG_KEY_def run getitem_def split: sum.splits)
qed

theorem lambda_handler_guard_two_keys_witness:
  "fst (lambda_handler example_world (batch [''tokenless'']) []) = Inl (KeyError ''LifecycleActionToken'')
   \<and> last (snd (lambda_handler example_world (batch [''tokenless'']) []))
       = Log INFO ''Finishing ASG action'' []
   \<and> completions (snd (lambda_handler example_world (batch [''tokenless'']) [])) = []"
proof -
  let ?ev = "batch [''tokenless'']"
  have h1: "Records ?ev \<noteq> []"
    by (simp add: batch_def)
  have h2: "fst (process_records example_world (Records ?ev)
           ([] @ [Log INFO (''Processing SNS event: '' @ json_dumps example_world ?ev) []])) = Inr ()"
    by code_simp
  have h3: "json_loads example_world (Message (Sns (last (Records ?ev)))) = Inr tokenless_message"
    by (simp add: batch_def example_world_def example_loads_def)
  have h4: "tokenless_message ''LifecycleHookName'' = Some ''hook1''"
    and h5: "tokenless_message ''AutoScalingGroupName'' = Some ''asg1''"
    and h6: "tokenless_message ''EC2InstanceId'' = None \<or> tokenless_message ''LifecycleActionToken'' = None"
    and h7: "tokenless_message ''EC2InstanceId'' \<noteq> None"
    by (simp_all add: tokenless_message_def launch_message_def)
  show ?thesis
    using lambda_handler_guard_two_keys [OF h1 h2 h3 h4 h5 h6] h7 by simp
qed

end
